theory Spec2Isabelle
  imports Main "HOL-Library.Char_ord"
begin

section \<open>Strings of the Go runtime\<close>

text \<open>
  A Go string is a sequence of bytes, so it is a \<open>string\<close> here (a list of 8-bit
  \<open>char\<close>s). Two functions of package \<open>strings\<close> are used by the webhook package.

  \<open>strings.Replace(s, old, new, -1)\<close> with a one-byte \<open>old\<close> scans \<open>s\<close> from the left
  and writes \<open>new\<close> for every occurrence of that byte.
\<close>

primrec Replace :: "string \<Rightarrow> char \<Rightarrow> string \<Rightarrow> string" where
  "Replace [] old new = []"
| "Replace (c # cs) old new =
     (if c = old then new @ Replace cs old new else c # Replace cs old new)"

text \<open>
  \<open>strings.ToLower\<close> first scans for a byte \<open>\<ge> utf8.RuneSelf\<close> (0x80) and for an
  upper-case ASCII letter. An ASCII-only string is returned as it is when it has no
  upper-case letter, and otherwise with \<open>'a' - 'A'\<close> added to each byte in \<open>'A'..'Z'\<close>.
  Any other string goes through \<open>strings.Map(unicode.ToLower, s)\<close>, which depends on
  the Unicode tables of the Go runtime: that mapping is the parameter \<open>mapLower\<close>.
\<close>

definition RuneSelf :: nat where
  "RuneSelf = 128"

definition isASCII :: "string \<Rightarrow> bool" where
  "isASCII s = list_all (\<lambda>c. of_char c < RuneSelf) s"

definition isUpperByte :: "char \<Rightarrow> bool" where
  "isUpperByte c = (CHR ''A'' \<le> c \<and> c \<le> CHR ''Z'')"

definition hasUpper :: "string \<Rightarrow> bool" where
  "hasUpper s = list_ex isUpperByte s"

definition lowerByte :: "char \<Rightarrow> char" where
  "lowerByte c =
     (if isUpperByte c
      then char_of (of_char c + (of_char (CHR ''a'') - of_char (CHR ''A'') :: nat))
      else c)"

definition ToLower :: "(string \<Rightarrow> string) \<Rightarrow> string \<Rightarrow> string" where
  "ToLower mapLower s =
     (if isASCII s then (if \<not> hasUpper s then s else map lowerByte s)
      else mapLower s)"

section \<open>Package webhook: the registry and the path generator\<close>

record GroupVersionKind =
  Group :: string
  Version :: string
  Kind :: string

text \<open>The handler of a registration is an \<open>admission.Handler\<close>; its type is left open.\<close>

record 'hdl registration =
  kind :: GroupVersionKind
  h :: 'hdl
  p :: string
  r :: string

definition servicePort :: int where
  "servicePort = 9876"

definition generateValidatePath :: "(string \<Rightarrow> string) \<Rightarrow> GroupVersionKind \<Rightarrow> string" where
  "generateValidatePath mapLower gvk =
     ''/validate-'' @ Replace (Group gvk) (CHR ''.'') ''-'' @ ''-'' @
       Version gvk @ ''-'' @ ToLower mapLower (Kind gvk)"

text \<open>
  The package variable \<open>registrations\<close> starts as the empty slice and is written by
  \<open>Register\<close> only. \<open>Register\<close> takes the slice and returns the appended one.
\<close>

definition registrations_init :: "'hdl registration list" where
  "registrations_init = []"

definition Register ::
  "(string \<Rightarrow> string) \<Rightarrow> GroupVersionKind \<Rightarrow> string \<Rightarrow> 'hdl \<Rightarrow>
     'hdl registration list \<Rightarrow> 'hdl registration list" where
  "Register mapLower knd resources hdl registrations =
     registrations @
       [\<lparr>kind = knd, h = hdl, p = generateValidatePath mapLower knd, r = resources\<rparr>]"

text \<open>The values the package variable can hold: those built from the empty slice by calls of \<open>Register\<close>.\<close>

inductive registry :: "(string \<Rightarrow> string) \<Rightarrow> 'hdl registration list \<Rightarrow> bool"
  for mapLower :: "string \<Rightarrow> string" where
  registry_init: "registry mapLower registrations_init"
| registry_Register:
    "registry mapLower regs \<Longrightarrow> registry mapLower (Register mapLower knd resources hdl regs)"

text \<open>
  The path form of the specification: \<open>/validate-<group-with-dots-as-dashes>-<version>-<lowercased-kind>\<close>.
\<close>

definition dots_as_dashes :: "string \<Rightarrow> string" where
  "dots_as_dashes g = map (\<lambda>c. if c = CHR ''.'' then CHR ''-'' else c) g"

text \<open>
  The lower-cased kind of the specification, written without the functions above: a byte
  is ASCII when its top bit is clear, an upper-case letter is replaced
  by the letter at the same place of the lower-case alphabet, and every other byte stays.
  A kind with a byte outside ASCII is lower-cased by the Unicode mapping \<open>mapLower\<close>.
\<close>

definition ascii_only :: "string \<Rightarrow> bool" where
  "ascii_only k = list_all (\<lambda>c. \<not> digit7 c) k"

definition ascii_lower :: "char \<Rightarrow> char" where
  "ascii_lower c =
     (case map_of (zip ''ABCDEFGHIJKLMNOPQRSTUVWXYZ'' ''abcdefghijklmnopqrstuvwxyz'') c of
        Some l \<Rightarrow> l
      | None \<Rightarrow> c)"

definition lowercased :: "(string \<Rightarrow> string) \<Rightarrow> string \<Rightarrow> string" where
  "lowercased mapLower k = (if ascii_only k then map ascii_lower k else mapLower k)"

definition spec_path_form :: "(string \<Rightarrow> string) \<Rightarrow> string \<Rightarrow> string \<Rightarrow> string \<Rightarrow> string" where
  "spec_path_form mapLower g v k =
     concat [''/validate-'', dots_as_dashes g, ''-'', v, ''-'', lowercased mapLower k]"

section \<open>Package webhook: startup\<close>

text \<open>A Go \<open>error\<close> value, with the text its \<open>Error()\<close> method returns.\<close>

datatype error = Error (message: string)

text \<open>The \<open>v1.Service\<close> object built by \<open>deployWebhookService\<close>; a Go map literal is an association list.\<close>

record ServicePort =
  sp_Name :: string
  sp_Protocol :: string
  sp_Port :: int
  sp_TargetPort :: int

record Service =
  svc_Namespace :: string
  svc_Name :: string
  svc_Labels :: "(string \<times> string) list"
  svc_Selector :: "(string \<times> string) list"
  svc_Ports :: "ServicePort list"

text \<open>The \<open>admissionregistration/v1\<close> objects built by \<open>deployValidatingWebhookConfiguration\<close>.\<close>

datatype OperationType = OperationAll | Create | Update | Delete | Connect

datatype SideEffectClass =
  SideEffectClassUnknown | SideEffectClassNone | SideEffectClassSome | SideEffectClassNoneOnDryRun

record ServiceReference =
  sr_Namespace :: string
  sr_Name :: string
  sr_Path :: "string option"

record WebhookClientConfig =
  cc_Service :: "ServiceReference option"
  CABundle :: string

record RuleWithOperations =
  Operations :: "OperationType list"
  APIGroups :: "string list"
  APIVersions :: "string list"
  Resources :: "string list"

record ValidatingWebhook =
  wh_Name :: string
  ClientConfig :: WebhookClientConfig
  Rules :: "RuleWithOperations list"
  SideEffects :: "SideEffectClass option"
  AdmissionReviewVersions :: "string list"

record ValidatingWebhookConfiguration =
  cfg_Name :: string
  cfg_Namespace :: string
  Webhooks :: "ValidatingWebhook list"

text \<open>
  The certificate context returned by \<open>getCertContext\<close> (a function of the package that
  is outside these files): the two fields \<open>Start\<close> reads.
\<close>

record certContext =
  certDir :: string
  signingCert :: string

text \<open>
  What \<open>Start\<close> calls outside the package, as results: the operator SDK's lookups, the
  process environment (\<open>os.Getenv\<close> gives the empty string for an unset variable),
  \<open>kubernetes.NewForConfigOrDie\<close> (\<open>None\<close> when it panics), the create-or-update
  helpers of package \<open>util\<close> and \<open>getCertContext\<close>.
\<close>

record 'cs platform =
  GetOperatorName :: "error + string"
  GetOperatorNamespace :: "error + string"
  Getenv :: "string \<Rightarrow> string"
  NewForConfigOrDie :: "'cs option"
  CreateOrUpdateService :: "Service \<Rightarrow> 'cs \<Rightarrow> error option"
  getCertContext :: "string \<Rightarrow> string \<Rightarrow> error + certContext"
  CreateOrUpdateValidatingWebhookConfiguration ::
    "ValidatingWebhookConfiguration \<Rightarrow> 'cs \<Rightarrow> error option"

text \<open>\<open>getOperatorNameAndNamespace\<close> returns \<open>(ns, name)\<close> or the error.\<close>

definition getOperatorNameAndNamespace :: "'cs platform \<Rightarrow> error + (string \<times> string)" where
  "getOperatorNameAndNamespace pl =
     (case GetOperatorName pl of
        Inl err \<Rightarrow> Inl err
      | Inr name \<Rightarrow>
          (case GetOperatorNamespace pl of
             Inl err \<Rightarrow>
               (let envNs = Getenv pl ''ADMISSION_PROXY_NAMESPACE'' in
                if envNs = ''''
                then Inl (Error (''unable to determine operator namespace. Error: '' @ message err @
                                 '' and ADMISSION_PROXY_NAMESPACE env var not set''))
                else Inr (envNs, name))
           | Inr ns \<Rightarrow> Inr (ns, name)))"

text \<open>
  \<open>intstr.FromInt(val)\<close> keeps \<open>int32(val)\<close>: the conversion of a Go \<open>int\<close> to 32 bits
  wraps around.
\<close>

definition FromInt :: "int \<Rightarrow> int" where
  "FromInt val = (val + 2147483648) mod 4294967296 - 2147483648"

definition deployWebhookService ::
  "'cs platform \<Rightarrow> string \<Rightarrow> string \<Rightarrow> int \<Rightarrow> 'cs \<Rightarrow> error option" where
  "deployWebhookService pl ns name port rawClient =
     (let selectorLabels = [(''name'', name)];
          service = \<lparr>svc_Namespace = ns, svc_Name = name, svc_Labels = selectorLabels,
                     svc_Selector = selectorLabels,
                     svc_Ports = [\<lparr>sp_Name = ''http'', sp_Protocol = ''TCP'', sp_Port = 443,
                                   sp_TargetPort = FromInt port\<rparr>]\<rparr>
      in CreateOrUpdateService pl service rawClient)"

definition sideEffect :: "SideEffectClass \<Rightarrow> SideEffectClass option" where
  "sideEffect s = Some s"

text \<open>
  The body of the loop of \<open>deployValidatingWebhookConfiguration\<close>: \<open>reg\<close> is the copy
  \<open>registrations[i]\<close>, a fresh variable in each iteration that nothing writes afterwards, so
  the pointer \<open>&r.p\<close> is the value of the path.
\<close>

definition appendWebhook ::
  "(string \<Rightarrow> string) \<Rightarrow> string \<Rightarrow> string \<Rightarrow> string \<Rightarrow> 'hdl registration \<Rightarrow>
     ValidatingWebhookConfiguration \<Rightarrow> ValidatingWebhookConfiguration" where
  "appendWebhook mapLower svcName ns cert reg webhookConfig =
     webhookConfig\<lparr>Webhooks := Webhooks webhookConfig @
       [\<lparr>wh_Name = ''webhook-'' @ r reg @ ''-'' @ Version (kind reg) @ ''.'' @
                     ToLower mapLower (Group (kind reg)),
         ClientConfig =
           \<lparr>cc_Service = Some \<lparr>sr_Namespace = ns, sr_Name = svcName, sr_Path = Some (p reg)\<rparr>,
            CABundle = cert\<rparr>,
         Rules =
           [\<lparr>Operations = [Create, Update],
             APIGroups = [Group (kind reg)],
             APIVersions = [Version (kind reg)],
             Resources = [r reg]\<rparr>],
         SideEffects = sideEffect SideEffectClassNone,
         AdmissionReviewVersions = [''v1beta1'', ''v1'']\<rparr>]\<rparr>"

primrec webhooksLoop ::
  "(string \<Rightarrow> string) \<Rightarrow> string \<Rightarrow> string \<Rightarrow> string \<Rightarrow> 'hdl registration list \<Rightarrow>
     ValidatingWebhookConfiguration \<Rightarrow> ValidatingWebhookConfiguration" where
  "webhooksLoop mapLower svcName ns cert [] webhookConfig = webhookConfig"
| "webhooksLoop mapLower svcName ns cert (reg # regs) webhookConfig =
     webhooksLoop mapLower svcName ns cert regs
       (appendWebhook mapLower svcName ns cert reg webhookConfig)"

text \<open>The object \<open>deployValidatingWebhookConfiguration\<close> has built when its loop ends.\<close>

definition buildValidatingWebhookConfiguration ::
  "(string \<Rightarrow> string) \<Rightarrow> string \<Rightarrow> string \<Rightarrow> string \<Rightarrow> 'hdl registration list \<Rightarrow>
     ValidatingWebhookConfiguration" where
  "buildValidatingWebhookConfiguration mapLower svcName ns cert registrations =
     webhooksLoop mapLower svcName ns cert registrations
       \<lparr>cfg_Name = ''spinnakervalidatingwebhook'', cfg_Namespace = ns, Webhooks = []\<rparr>"

definition deployValidatingWebhookConfiguration ::
  "'cs platform \<Rightarrow> (string \<Rightarrow> string) \<Rightarrow> string \<Rightarrow> string \<Rightarrow> 'cs \<Rightarrow> string \<Rightarrow>
     'hdl registration list \<Rightarrow> error option" where
  "deployValidatingWebhookConfiguration pl mapLower svcName ns rawClient cert registrations =
     CreateOrUpdateValidatingWebhookConfiguration pl
       (buildValidatingWebhookConfiguration mapLower svcName ns cert registrations) rawClient"

text \<open>
  The manager's webhook server, as far as \<open>Start\<close> writes it: the two fields it sets and
  the handlers registered with \<open>hookServer.Register(path, handler)\<close>, in the order of
  registration. The server of controller-runtime keeps one handler per path:
  \<open>Register\<close> panics (\<open>can't register duplicate path\<close>) when the path is registered
  already, which is the result \<open>None\<close> here.
\<close>

record 'hdl Server =
  CertDir :: string
  Port :: int
  webhooks :: "(string \<times> 'hdl) list"

definition Server_Register :: "string \<Rightarrow> 'hdl \<Rightarrow> 'hdl Server \<Rightarrow> 'hdl Server option" where
  "Server_Register path hdl srv =
     (if path \<in> set (map fst (webhooks srv)) then None
      else Some (srv\<lparr>webhooks := webhooks srv @ [(path, hdl)]\<rparr>))"

text \<open>
  The registration loop of \<open>Start\<close>: it returns whether it ran to its end, and the
  server as the loop left it (at the panic, when it did not).
\<close>

primrec registerLoop :: "'hdl registration list \<Rightarrow> 'hdl Server \<Rightarrow> bool \<times> 'hdl Server" where
  "registerLoop [] hookServer = (True, hookServer)"
| "registerLoop (reg # regs) hookServer =
     (case Server_Register (p reg) (h reg) hookServer of
        None \<Rightarrow> (False, hookServer)
      | Some hookServer' \<Rightarrow> registerLoop regs hookServer')"

text \<open>
  How \<open>Start\<close> ends: it returns \<open>nil\<close> or an error, or it panics, in
  \<open>NewForConfigOrDie\<close> or in \<open>hookServer.Register\<close>.
\<close>

datatype outcome = Returned "error option" | Panicked

definition Start ::
  "'cs platform \<Rightarrow> (string \<Rightarrow> string) \<Rightarrow> 'hdl registration list \<Rightarrow> 'hdl Server \<Rightarrow>
     outcome \<times> 'hdl Server" where
  "Start pl mapLower registrations hookServer =
     (if length registrations = 0
      then (Returned (Some (Error ''no kind registered for validation'')), hookServer)
      else
        (case getOperatorNameAndNamespace pl of
           Inl err \<Rightarrow> (Returned (Some err), hookServer)
         | Inr (ns, name) \<Rightarrow>
             (case NewForConfigOrDie pl of
                None \<Rightarrow> (Panicked, hookServer)
              | Some rawClient \<Rightarrow>
                  (case deployWebhookService pl ns name servicePort rawClient of
                     Some err \<Rightarrow> (Returned (Some err), hookServer)
                   | None \<Rightarrow>
                       (case getCertContext pl ns name of
                          Inl err \<Rightarrow> (Returned (Some err), hookServer)
                        | Inr c \<Rightarrow>
                            (let hookServer1 = hookServer\<lparr>CertDir := certDir c, Port := servicePort\<rparr>
                             in case registerLoop registrations hookServer1 of
                                  (False, hookServer2) \<Rightarrow> (Panicked, hookServer2)
                                | (True, hookServer2) \<Rightarrow>
                                    (Returned (deployValidatingWebhookConfiguration pl mapLower name ns
                                                 rawClient (signingCert c) registrations),
                                     hookServer2)))))))"

section \<open>Package accountvalidating: the admission handler\<close>

text \<open>
  An \<open>admission.Response\<close> is built by one of two functions of controller-runtime:
  \<open>admission.Errored(code, err)\<close>, a denial carrying the HTTP status code and the text of
  the error, and \<open>admission.ValidationResponse(allowed, reason)\<close>.
\<close>

datatype Response = Errored int error | ValidationResponse bool string

fun Allowed :: "Response \<Rightarrow> bool" where
  "Allowed (Errored code err) = False"
| "Allowed (ValidationResponse allowed reason) = allowed"

text \<open>The status code and message of a response built by \<open>admission.Errored\<close>.\<close>

fun errored_with :: "Response \<Rightarrow> (int \<times> string) option" where
  "errored_with (Errored code err) = Some (code, message err)"
| "errored_with (ValidationResponse allowed reason) = None"

definition StatusBadRequest :: int where
  "StatusBadRequest = 400"

definition StatusUnprocessableEntity :: int where
  "StatusUnprocessableEntity = 422"

text \<open>Of an \<open>admission.Request\<close>: the kind of the resource and the raw object.\<close>

record Request =
  req_Kind :: GroupVersionKind
  req_Object :: string

text \<open>
  What \<open>Handle\<close> calls outside its package, as results: the group and version of
  \<open>TypesFactory.GetGroupVersion()\<close>; \<open>v.decoder.Decode(req, acc)\<close> on the fresh account of
  \<open>TypesFactory.NewAccount()\<close>, giving the error or the decoded account;
  \<open>acc.GetSpec().Type\<close> and \<open>acc.GetNamespace()\<close>; \<open>accounts.GetType\<close>; \<open>accType.FromCRD\<close>;
  \<open>secrets.NewContext(ctx, v.restConfig, namespace)\<close>, giving the new context; and
  \<open>spinAccount.NewValidator().Validate(nil, v.client, ctx, log)\<close>. The package variable
  \<open>TypesFactory\<close> and the injected decoder, client and configuration are taken as set,
  as they are once the manager has started the handler.
\<close>

record ('acc, 'ty, 'sp, 'ctx) collaborators =
  gv_Group :: string
  gv_Version :: string
  Decode :: "Request \<Rightarrow> error + 'acc"
  SpecType :: "'acc \<Rightarrow> string"
  GetNamespace :: "'acc \<Rightarrow> string"
  GetType :: "string \<Rightarrow> error + 'ty"
  FromCRD :: "'ty \<Rightarrow> 'acc \<Rightarrow> error + 'sp"
  NewContext :: "string \<Rightarrow> 'ctx"
  Validate :: "'sp \<Rightarrow> 'ctx \<Rightarrow> error option"

text \<open>The calls \<open>Handle\<close> makes, recorded in the order it makes them.\<close>

datatype 'ctx event =
  Log_Info string
| Decode_call
| GetType_call string
| FromCRD_call
| NewContext_call 'ctx
| Validate_call 'ctx
| Cleanup_call 'ctx

text \<open>
  \<open>Handle\<close> returns the response and the calls it made. \<open>defer secrets.Cleanup(ctx)\<close>
  runs when the function returns, on either return that follows it.
\<close>

definition Handle ::
  "('acc, 'ty, 'sp, 'ctx) collaborators \<Rightarrow> Request \<Rightarrow> Response \<times> 'ctx event list" where
  "Handle v req =
     (let tr0 = [Log_Info (''Handling admission request for: '' @ Kind (req_Kind req))] in
      if ''SpinnakerAccount'' = Kind (req_Kind req) \<and>
         gv_Group v = Group (req_Kind req) \<and>
         gv_Version v = Version (req_Kind req)
      then
        (let tr1 = tr0 @ [Decode_call] in
         case Decode v req of
           Inl err \<Rightarrow> (Errored StatusBadRequest err, tr1)
         | Inr acc \<Rightarrow>
             (let tr2 = tr1 @ [GetType_call (SpecType v acc)] in
              case GetType v (SpecType v acc) of
                Inl err \<Rightarrow> (Errored StatusBadRequest err, tr2)
              | Inr accType \<Rightarrow>
                  (let tr3 = tr2 @ [FromCRD_call] in
                   case FromCRD v accType acc of
                     Inl err \<Rightarrow> (Errored StatusBadRequest err, tr3)
                   | Inr spinAccount \<Rightarrow>
                       (let ctx = NewContext v (GetNamespace v acc);
                            tr4 = tr3 @ [NewContext_call ctx];
                            deferred = [Cleanup_call ctx];
                            tr5 = tr4 @ [Validate_call ctx]
                        in case Validate v spinAccount ctx of
                             Some err \<Rightarrow> (Errored StatusUnprocessableEntity err, tr5 @ deferred)
                           | None \<Rightarrow> (ValidationResponse True '''', tr5 @ deferred)))))
      else (ValidationResponse True '''', tr0))"

text \<open>The identity \<open>Handle\<close> compares a request's kind with.\<close>

definition accountIdentity :: "('acc, 'ty, 'sp, 'ctx) collaborators \<Rightarrow> GroupVersionKind" where
  "accountIdentity v = \<lparr>Group = gv_Group v, Version = gv_Version v, Kind = ''SpinnakerAccount''\<rparr>"

text \<open>The acquisitions and releases of a secret context among the calls.\<close>

fun is_context_event :: "'ctx event \<Rightarrow> bool" where
  "is_context_event (NewContext_call c) = True"
| "is_context_event (Cleanup_call c) = True"
| "is_context_event e = False"

definition context_events :: "'ctx event list \<Rightarrow> 'ctx event list" where
  "context_events tr = filter is_context_event tr"

section \<open>Concrete inputs\<close>

text \<open>
  Collaborators for an account kind \<open>spinnaker.io/v1alpha2 SpinnakerAccount\<close> whose raw
  object is read as the account's type name: \<open>not json\<close> does not decode, the type
  \<open>unknown\<close> is not registered, \<open>broken\<close> does not convert and \<open>invalid\<close> fails
  validation. The secret context is named by its namespace.
\<close>

definition example_collaborators :: "(string, string, string, string) collaborators" where
  "example_collaborators =
     \<lparr>gv_Group = ''spinnaker.io'', gv_Version = ''v1alpha2'',
      Decode = (\<lambda>req. if req_Object req = ''not json''
                       then Inl (Error ''invalid character'') else Inr (req_Object req)),
      SpecType = (\<lambda>acc. acc),
      GetNamespace = (\<lambda>acc. ''default''),
      GetType = (\<lambda>t. if t = ''unknown'' then Inl (Error ''no account type'') else Inr t),
      FromCRD = (\<lambda>accType acc. if acc = ''broken''
                                then Inl (Error ''conversion failed'') else Inr acc),
      NewContext = (\<lambda>ns. ns),
      Validate = (\<lambda>spinAccount ctx. if spinAccount = ''invalid''
                                     then Some (Error ''name must be non-empty'') else None)\<rparr>"

definition example_request :: "string \<Rightarrow> string \<Rightarrow> Request" where
  "example_request knd obj =
     \<lparr>req_Kind = \<lparr>Group = ''spinnaker.io'', Version = ''v1alpha2'', Kind = knd\<rparr>,
      req_Object = obj\<rparr>"

text \<open>
  A platform where every step after identity resolution succeeds; the results of the two
  lookups and the value of \<open>ADMISSION_PROXY_NAMESPACE\<close> are given.
\<close>

definition example_platform ::
  "error + string \<Rightarrow> error + string \<Rightarrow> string \<Rightarrow> unit platform" where
  "example_platform name_result ns_result env_ns =
     \<lparr>GetOperatorName = name_result,
      GetOperatorNamespace = ns_result,
      Getenv = (\<lambda>k. if k = ''ADMISSION_PROXY_NAMESPACE'' then env_ns else ''''),
      NewForConfigOrDie = Some (),
      CreateOrUpdateService = (\<lambda>service rawClient. None),
      getCertContext = (\<lambda>ns name. Inr \<lparr>certDir = ''/tmp/certs'', signingCert = ''CA''\<rparr>),
      CreateOrUpdateValidatingWebhookConfiguration = (\<lambda>webhookConfig rawClient. None)\<rparr>"

definition example_kind :: GroupVersionKind where
  "example_kind = \<lparr>Group = ''spinnaker.io'', Version = ''v1alpha2'', Kind = ''SpinnakerAccount''\<rparr>"

definition example_kind2 :: GroupVersionKind where
  "example_kind2 = \<lparr>Group = ''spinnaker.io'', Version = ''v1alpha2'', Kind = ''SpinnakerService''\<rparr>"

definition example_server :: "nat Server" where
  "example_server = \<lparr>CertDir = '''', Port = 0, webhooks = []\<rparr>"

section \<open>Properties of the path generator\<close>

lemma Replace_dot_dash: "Replace s (CHR ''.'') ''-'' = dots_as_dashes s"
  by (induction s) (simp_all add: dots_as_dashes_def)

lemma lowerByte_Pod: "map lowerByte ''Pod'' = ''pod''"
  by code_simp

lemma Pod_lower: "ToLower mapLower ''Pod'' = ''pod''"
  unfolding ToLower_def lowerByte_Pod
  by (simp add: isASCII_def RuneSelf_def hasUpper_def isUpperByte_def less_eq_char_def)

text \<open>
  C3 (counterexample). With the empty group the generator writes both dashes around the
  empty group text, so the path of \<open>{group: "", version: "v1", kind: "Pod"}\<close> is not
  \<open>/validate-v1-pod\<close>.
\<close>

theorem C3_path_of_core_Pod_counterexample:
  "generateValidatePath id \<lparr>Group = '''', Version = ''v1'', Kind = ''Pod''\<rparr> \<noteq> ''/validate-v1-pod''"
  by (simp add: generateValidatePath_def Pod_lower)

text \<open>
  C3 (amended). The identity \<open>{group: "", version: "v1", kind: "Pod"}\<close> yields the path
  \<open>/validate--v1-pod\<close> from the path generator, and \<open>Register\<close> stores that path.
\<close>

theorem C3_path_of_core_Pod:
  "generateValidatePath mapLower \<lparr>Group = '''', Version = ''v1'', Kind = ''Pod''\<rparr> = ''/validate--v1-pod''
   \<and> map p (Register mapLower \<lparr>Group = '''', Version = ''v1'', Kind = ''Pod''\<rparr> ''pods'' hdl registrations_init)
       = [''/validate--v1-pod'']"
  by (simp add: generateValidatePath_def Pod_lower Register_def registrations_init_def)

lemma dots_as_dashes_no_dot: "CHR ''.'' \<notin> set (dots_as_dashes g)"
  by (auto simp: dots_as_dashes_def)

lemma lowerByte_not_upper: "\<not> isUpperByte (lowerByte c)"
proof (cases "isUpperByte c")
  case False
  then show ?thesis by (simp add: lowerByte_def)
next
  case True
  then have b: "65 \<le> (of_char c :: nat)" "(of_char c :: nat) \<le> 90"
    by (simp_all add: isUpperByte_def less_eq_char_def)
  then have "(of_char (char_of (of_char c + (32::nat))) :: nat) = of_char c + 32"
    by simp
  with b True show ?thesis
    by (simp add: lowerByte_def isUpperByte_def less_eq_char_def)
qed

lemma ToLower_ascii_no_upper: "isASCII s \<Longrightarrow> \<not> hasUpper (ToLower ml s)"
  by (auto simp: ToLower_def hasUpper_def list_ex_iff lowerByte_not_upper)

lemma lowerByte_SpinnakerAccount: "map lowerByte ''SpinnakerAccount'' = ''spinnakeraccount''"
  by code_simp

lemma SpinnakerAccount_lower: "ToLower ml ''SpinnakerAccount'' = ''spinnakeraccount''"
  unfolding ToLower_def lowerByte_SpinnakerAccount
  by (simp add: isASCII_def RuneSelf_def hasUpper_def isUpperByte_def less_eq_char_def)

lemma example_kind_path:
  "generateValidatePath ml example_kind = ''/validate-spinnaker-io-v1alpha2-spinnakeraccount''"
  by (simp add: generateValidatePath_def example_kind_def SpinnakerAccount_lower)

lemma upper_alphabet: "map char_of [65..<91::nat] = ''ABCDEFGHIJKLMNOPQRSTUVWXYZ''"
  by code_simp

lemma lowerByte_alphabet: "map lowerByte ''ABCDEFGHIJKLMNOPQRSTUVWXYZ'' = ''abcdefghijklmnopqrstuvwxyz''"
  by code_simp

lemma ascii_lower_alphabet: "map ascii_lower ''ABCDEFGHIJKLMNOPQRSTUVWXYZ'' = ''abcdefghijklmnopqrstuvwxyz''"
  by (simp add: ascii_lower_def)

lemma ascii_byte: "(of_char c < RuneSelf) = (\<not> digit7 c)"
  by (cases c) (simp add: RuneSelf_def)

lemma isUpperByte_alphabet: "isUpperByte c = (c \<in> set ''ABCDEFGHIJKLMNOPQRSTUVWXYZ'')"
proof
  assume "isUpperByte c"
  then have "65 \<le> (of_char c :: nat)" "(of_char c :: nat) < 91"
    by (simp_all add: isUpperByte_def less_eq_char_def)
  then have "(of_char c :: nat) \<in> set [65..<91]"
    by (simp only: set_upt atLeastLessThan_iff)
  then have "char_of (of_char c :: nat) \<in> set (map char_of [65..<91::nat])"
    by (simp only: set_map image_eqI)
  then show "c \<in> set ''ABCDEFGHIJKLMNOPQRSTUVWXYZ''"
    by (simp only: upper_alphabet char_of_char)
next
  assume "c \<in> set ''ABCDEFGHIJKLMNOPQRSTUVWXYZ''"
  then have "c \<in> set (map char_of [65..<91::nat])"
    by (simp only: upper_alphabet)
  then obtain n :: nat where n: "65 \<le> n" "n < 91" "c = char_of n"
    by auto
  then have "(of_char c :: nat) = n" by simp
  with n show "isUpperByte c"
    by (simp add: isUpperByte_def less_eq_char_def)
qed

lemma lowerByte_ascii_lower: "lowerByte c = ascii_lower c"
proof (cases "isUpperByte c")
  case True
  then have "c \<in> set ''ABCDEFGHIJKLMNOPQRSTUVWXYZ''"
    by (simp only: isUpperByte_alphabet)
  moreover have "map lowerByte ''ABCDEFGHIJKLMNOPQRSTUVWXYZ'' = map ascii_lower ''ABCDEFGHIJKLMNOPQRSTUVWXYZ''"
    by (simp only: lowerByte_alphabet ascii_lower_alphabet)
  ultimately show ?thesis
    by (simp only: map_eq_conv)
next
  case False
  then have "c \<notin> set ''ABCDEFGHIJKLMNOPQRSTUVWXYZ''"
    by (simp only: isUpperByte_alphabet not_False_eq_True)
  then have "map_of (zip ''ABCDEFGHIJKLMNOPQRSTUVWXYZ'' ''abcdefghijklmnopqrstuvwxyz'') c = None"
    by (subst map_of_zip_is_None) simp_all
  with False show ?thesis
    by (simp add: lowerByte_def ascii_lower_def)
qed

lemma isASCII_ascii_only: "isASCII s = ascii_only s"
  by (simp add: isASCII_def ascii_only_def ascii_byte)

lemma ToLower_lowercased: "ToLower mapLower k = lowercased mapLower k"
proof (cases "hasUpper k")
  case True
  then show ?thesis
    by (simp add: ToLower_def lowercased_def isASCII_ascii_only lowerByte_ascii_lower)
next
  case False
  then have "map ascii_lower k = k"
    by (simp add: hasUpper_def list_ex_iff map_idI lowerByte_ascii_lower [symmetric] lowerByte_def)
  with False show ?thesis
    by (simp add: ToLower_def lowercased_def isASCII_ascii_only)
qed

text \<open>
  C6. The path generator is a function of the group, version and kind alone, and its
  path has the specification's form: \<open>/validate-\<close>, the group with every dot replaced by
  a dash (same length, no dot left), a dash, the version, a dash and the lower-cased kind.
  For an ASCII kind the last part is the kind with each upper-case letter replaced by its
  lower-case letter and every other byte kept, so no upper-case letter is left. The path
  \<open>Register\<close> stores for an identity is the same whatever the registry, resource name
  and handler are.
\<close>

theorem C6_path_form:
  "generateValidatePath mapLower gvk = spec_path_form mapLower (Group gvk) (Version gvk) (Kind gvk) \<and>
   (ascii_only (Kind gvk) \<longrightarrow>
      generateValidatePath mapLower gvk =
        ''/validate-'' @ dots_as_dashes (Group gvk) @ ''-'' @ Version gvk @ ''-'' @
          map ascii_lower (Kind gvk)) \<and>
   p (last (Register mapLower gvk resources1 hdl1 regs1)) =
     p (last (Register mapLower gvk resources2 hdl2 regs2)) \<and>
   length (dots_as_dashes (Group gvk)) = length (Group gvk) \<and>
   CHR ''.'' \<notin> set (dots_as_dashes (Group gvk)) \<and>
   (isASCII (Kind gvk) \<longrightarrow> \<not> hasUpper (ToLower mapLower (Kind gvk)))"
proof -
  have a: "generateValidatePath mapLower gvk =
      spec_path_form mapLower (Group gvk) (Version gvk) (Kind gvk)"
    by (simp add: generateValidatePath_def spec_path_form_def Replace_dot_dash ToLower_lowercased)
  then have b: "ascii_only (Kind gvk) \<longrightarrow>
      generateValidatePath mapLower gvk =
        ''/validate-'' @ dots_as_dashes (Group gvk) @ ''-'' @ Version gvk @ ''-'' @
          map ascii_lower (Kind gvk)"
    by (simp add: spec_path_form_def lowercased_def)
  have c: "p (last (Register mapLower gvk resources1 hdl1 regs1)) =
     p (last (Register mapLower gvk resources2 hdl2 regs2))"
    by (simp add: Register_def)
  have d: "length (dots_as_dashes (Group gvk)) = length (Group gvk)"
    by (simp add: dots_as_dashes_def)
  have e: "isASCII (Kind gvk) \<longrightarrow> \<not> hasUpper (ToLower mapLower (Kind gvk))"
    by (simp add: ToLower_ascii_no_upper)
  from a b c d e dots_as_dashes_no_dot show ?thesis by blast
qed

lemma ascii_lower_SpinnakerAccount: "map ascii_lower ''SpinnakerAccount'' = ''spinnakeraccount''"
  by (simp add: ascii_lower_def)

theorem C6_path_form_witness:
  "ascii_only (Kind example_kind) \<and>
   isASCII (Kind example_kind) \<and>
   \<not> hasUpper (ToLower id (Kind example_kind)) \<and>
   generateValidatePath id example_kind = ''/validate-spinnaker-io-v1alpha2-spinnakeraccount'' \<and>
   spec_path_form id (Group example_kind) (Version example_kind) (Kind example_kind) =
     ''/validate-spinnaker-io-v1alpha2-spinnakeraccount''"
proof -
  have a: "ascii_only (Kind example_kind)"
    by (simp add: example_kind_def ascii_only_def)
  have a': "isASCII (Kind example_kind)"
    by (simp add: example_kind_def isASCII_def RuneSelf_def)
  have dd: "dots_as_dashes (Group example_kind) = ''spinnaker-io''"
    by (simp add: example_kind_def dots_as_dashes_def)
  have "Kind example_kind = ''SpinnakerAccount''"
    by (simp add: example_kind_def)
  then have kk: "map ascii_lower (Kind example_kind) = ''spinnakeraccount''"
    by (simp only: ascii_lower_SpinnakerAccount)
  note c6 = C6_path_form [of id example_kind "''a''" "0::nat" "[]" "''b''" "1::nat" "[]"]
  from c6 a' have b: "\<not> hasUpper (ToLower id (Kind example_kind))"
    by blast
  from c6 a have "generateValidatePath id example_kind =
        ''/validate-'' @ dots_as_dashes (Group example_kind) @ ''-'' @ Version example_kind @ ''-'' @
          map ascii_lower (Kind example_kind)"
    by blast
  then have g: "generateValidatePath id example_kind = ''/validate-spinnaker-io-v1alpha2-spinnakeraccount''"
    by (simp add: dd kk) (simp add: example_kind_def)
  from c6 have "generateValidatePath id example_kind =
      spec_path_form id (Group example_kind) (Version example_kind) (Kind example_kind)"
    by blast
  with g have "spec_path_form id (Group example_kind) (Version example_kind) (Kind example_kind) =
      ''/validate-spinnaker-io-v1alpha2-spinnakeraccount''"
    by simp
  with a a' b g show ?thesis by blast
qed

section \<open>The registry\<close>

text \<open>
  C10. \<open>Register\<close> has no failing branch: on every registry built by \<open>Register\<close> from
  the empty one it returns the registry with exactly one new entry at the end, also when
  the identity is registered already; and in every such registry each entry's path is
  \<open>generateValidatePath\<close> of the entry's kind, before and after the call.
\<close>

theorem C10_Register_appends_and_keeps_paths:
  assumes "registry mapLower regs"
  shows "Register mapLower knd resources hdl regs =
           regs @ [\<lparr>kind = knd, h = hdl, p = generateValidatePath mapLower knd, r = resources\<rparr>] \<and>
         length (Register mapLower knd resources hdl regs) = length regs + 1 \<and>
         registry mapLower (Register mapLower knd resources hdl regs) \<and>
         (\<forall>e \<in> set regs. p e = generateValidatePath mapLower (kind e)) \<and>
         (\<forall>e \<in> set (Register mapLower knd resources hdl regs).
            p e = generateValidatePath mapLower (kind e))"
proof -
  have inv: "\<forall>e \<in> set regs. p e = generateValidatePath mapLower (kind e)"
    using assms
    by (induction rule: registry.induct) (auto simp: registrations_init_def Register_def)
  then have "\<forall>e \<in> set (Register mapLower knd resources hdl regs).
      p e = generateValidatePath mapLower (kind e)"
    by (auto simp: Register_def)
  with inv assms show ?thesis
    by (simp add: registry_Register) (simp add: Register_def)
qed

theorem C10_Register_appends_and_keeps_paths_witness:
  "registry id (Register id example_kind ''spinnakeraccounts'' (0::nat) registrations_init) \<and>
   length (Register id example_kind ''spinnakeraccounts'' (1::nat)
            (Register id example_kind ''spinnakeraccounts'' (0::nat) registrations_init)) = 2 \<and>
   map p (Register id example_kind ''spinnakeraccounts'' (1::nat)
            (Register id example_kind ''spinnakeraccounts'' (0::nat) registrations_init)) =
     [''/validate-spinnaker-io-v1alpha2-spinnakeraccount'',
      ''/validate-spinnaker-io-v1alpha2-spinnakeraccount'']"
proof -
  have r1: "registry id (Register id example_kind ''spinnakeraccounts'' (0::nat) registrations_init)"
    by (rule registry_Register [OF registry_init])
  have l1: "length (Register id example_kind ''spinnakeraccounts'' (0::nat) registrations_init) = 1"
    by (simp add: Register_def registrations_init_def)
  have m1: "map p (Register id example_kind ''spinnakeraccounts'' (0::nat) registrations_init) =
      [''/validate-spinnaker-io-v1alpha2-spinnakeraccount'']"
    by (simp add: Register_def registrations_init_def example_kind_path)
  from C10_Register_appends_and_keeps_paths [OF r1, of example_kind "''spinnakeraccounts''" 1]
  have "length (Register id example_kind ''spinnakeraccounts'' (1::nat)
            (Register id example_kind ''spinnakeraccounts'' (0::nat) registrations_init)) = 2"
    and "map p (Register id example_kind ''spinnakeraccounts'' (1::nat)
            (Register id example_kind ''spinnakeraccounts'' (0::nat) registrations_init)) =
       map p (Register id example_kind ''spinnakeraccounts'' (0::nat) registrations_init) @
         [''/validate-spinnaker-io-v1alpha2-spinnakeraccount'']"
    by (simp_all add: l1 example_kind_path)
  with r1 m1 show ?thesis by simp
qed

section \<open>The admission handler\<close>

lemma Handle_unmatched:
  "req_Kind req \<noteq> accountIdentity v \<Longrightarrow>
   Handle v req =
     (ValidationResponse True '''',
      [Log_Info (''Handling admission request for: '' @ Kind (req_Kind req))])"
  by (cases "req_Kind req") (auto simp: Handle_def accountIdentity_def)

lemma matched_iff:
  "(req_Kind req = accountIdentity v) =
   (''SpinnakerAccount'' = Kind (req_Kind req) \<and> gv_Group v = Group (req_Kind req) \<and>
    gv_Version v = Version (req_Kind req))"
  by (cases "req_Kind req") (auto simp: accountIdentity_def)

text \<open>
  C1. A request whose kind (group, version, kind) is not the SpinnakerAccount identity is
  answered with \<open>ValidationResponse(true, "")\<close>: allowed, no error. The only call made is
  the log line; the payload is neither decoded nor validated, so the answer is the same
  whatever \<open>Decode\<close> would say of the payload.
\<close>

theorem C1_unmatched_request_is_allowed:
  assumes "req_Kind req \<noteq> accountIdentity v"
  shows "fst (Handle v req) = ValidationResponse True '''' \<and>
         Allowed (fst (Handle v req)) \<and>
         errored_with (fst (Handle v req)) = None \<and>
         snd (Handle v req) =
           [Log_Info (''Handling admission request for: '' @ Kind (req_Kind req))] \<and>
         Decode_call \<notin> set (snd (Handle v req)) \<and>
         (\<forall>c. Validate_call c \<notin> set (snd (Handle v req)))"
  by (simp add: Handle_unmatched [OF assms])

theorem C1_unmatched_request_is_allowed_witness:
  "req_Kind (example_request ''Service'' ''not json'') \<noteq> accountIdentity example_collaborators \<and>
   Decode example_collaborators (example_request ''Service'' ''not json'') =
     Inl (Error ''invalid character'') \<and>
   Handle example_collaborators (example_request ''Service'' ''not json'') =
     (ValidationResponse True '''', [Log_Info ''Handling admission request for: Service''])"
proof -
  have ne: "req_Kind (example_request ''Service'' ''not json'') \<noteq> accountIdentity example_collaborators"
    by (simp add: example_request_def accountIdentity_def)
  have k: "Kind (req_Kind (example_request ''Service'' ''not json'')) = ''Service''"
    by (simp add: example_request_def)
  have d: "Decode example_collaborators (example_request ''Service'' ''not json'') =
     Inl (Error ''invalid character'')"
    by (simp add: example_request_def example_collaborators_def)
  from C1_unmatched_request_is_allowed [OF ne] k
  have "Handle example_collaborators (example_request ''Service'' ''not json'') =
     (ValidationResponse True '''', [Log_Info ''Handling admission request for: Service''])"
    by (simp add: prod_eq_iff)
  with ne d show ?thesis by simp
qed

text \<open>
  C4. A matched request whose payload does not decode is denied with
  \<open>Errored(http.StatusBadRequest, err)\<close>: status 400 and the text of the decode error.
\<close>

theorem C4_undecodable_payload_is_bad_request:
  assumes "req_Kind req = accountIdentity v" and "Decode v req = Inl err"
  shows "fst (Handle v req) = Errored StatusBadRequest err \<and>
         StatusBadRequest = 400 \<and>
         \<not> Allowed (fst (Handle v req)) \<and>
         errored_with (fst (Handle v req)) = Some (400, message err) \<and>
         snd (Handle v req) =
           [Log_Info (''Handling admission request for: '' @ Kind (req_Kind req)), Decode_call]"
  using assms by (simp add: matched_iff Handle_def StatusBadRequest_def)

theorem C4_undecodable_payload_is_bad_request_witness:
  "req_Kind (example_request ''SpinnakerAccount'' ''not json'') = accountIdentity example_collaborators \<and>
   Decode example_collaborators (example_request ''SpinnakerAccount'' ''not json'') =
     Inl (Error ''invalid character'') \<and>
   fst (Handle example_collaborators (example_request ''SpinnakerAccount'' ''not json'')) =
     Errored 400 (Error ''invalid character'') \<and>
   errored_with (fst (Handle example_collaborators (example_request ''SpinnakerAccount'' ''not json''))) =
     Some (400, ''invalid character'')"
proof -
  have m: "req_Kind (example_request ''SpinnakerAccount'' ''not json'') = accountIdentity example_collaborators"
    by (simp add: example_request_def accountIdentity_def example_collaborators_def)
  have d: "Decode example_collaborators (example_request ''SpinnakerAccount'' ''not json'') =
     Inl (Error ''invalid character'')"
    by (simp add: example_request_def example_collaborators_def)
  from C4_undecodable_payload_is_bad_request [OF m d] m d show ?thesis
    by simp
qed

lemma Handle_decoded:
  assumes "req_Kind req = accountIdentity v" and "Decode v req = Inr acc"
  shows "Handle v req =
     (let tr2 = [Log_Info (''Handling admission request for: '' @ Kind (req_Kind req)),
                 Decode_call, GetType_call (SpecType v acc)] in
      case GetType v (SpecType v acc) of
        Inl err \<Rightarrow> (Errored StatusBadRequest err, tr2)
      | Inr accType \<Rightarrow>
          (case FromCRD v accType acc of
             Inl err \<Rightarrow> (Errored StatusBadRequest err, tr2 @ [FromCRD_call])
           | Inr spinAccount \<Rightarrow>
               (let ctx = NewContext v (GetNamespace v acc);
                    tr = tr2 @ [FromCRD_call, NewContext_call ctx, Validate_call ctx, Cleanup_call ctx]
                in case Validate v spinAccount ctx of
                     Some err \<Rightarrow> (Errored StatusUnprocessableEntity err, tr)
                   | None \<Rightarrow> (ValidationResponse True '''', tr))))"
  using assms
  by (simp add: matched_iff Handle_def Let_def split: sum.split option.split)


text \<open>
  C2 (amended). For a matched request whose payload decodes: an account type that
  \<open>accounts.GetType\<close> does not resolve and a conversion \<open>FromCRD\<close> that fails are
  denied with status 400; an error returned by the validator is denied with status 422.
\<close>

theorem C2_failure_statuses:
  assumes "req_Kind req = accountIdentity v" and "Decode v req = Inr acc"
  shows "(GetType v (SpecType v acc) = Inl err \<longrightarrow>
            fst (Handle v req) = Errored 400 err \<and> \<not> Allowed (fst (Handle v req))) \<and>
         (GetType v (SpecType v acc) = Inr accType \<and> FromCRD v accType acc = Inl err \<longrightarrow>
            fst (Handle v req) = Errored 400 err \<and> \<not> Allowed (fst (Handle v req))) \<and>
         (GetType v (SpecType v acc) = Inr accType \<and> FromCRD v accType acc = Inr spinAccount \<and>
          Validate v spinAccount (NewContext v (GetNamespace v acc)) = Some err \<longrightarrow>
            fst (Handle v req) = Errored 422 err \<and> \<not> Allowed (fst (Handle v req)))"
  by (simp add: Handle_decoded [OF assms] Let_def StatusBadRequest_def StatusUnprocessableEntity_def)

lemma example_matched:
  "req_Kind (example_request ''SpinnakerAccount'' obj) = accountIdentity example_collaborators"
  by (simp add: example_request_def accountIdentity_def example_collaborators_def)

lemma example_Decode:
  "obj \<noteq> ''not json'' \<Longrightarrow>
   Decode example_collaborators (example_request ''SpinnakerAccount'' obj) = Inr obj"
  by (simp add: example_request_def example_collaborators_def)


lemma example_GetType:
  "GetType example_collaborators (SpecType example_collaborators obj) =
     (if obj = ''unknown'' then Inl (Error ''no account type'') else Inr obj)"
  by (simp add: example_collaborators_def)

lemma example_FromCRD:
  "FromCRD example_collaborators accType obj =
     (if obj = ''broken'' then Inl (Error ''conversion failed'') else Inr obj)"
  by (simp add: example_collaborators_def)

lemma example_Validate:
  "Validate example_collaborators obj (NewContext example_collaborators (GetNamespace example_collaborators acc)) =
     (if obj = ''invalid'' then Some (Error ''name must be non-empty'') else None)"
  by (simp add: example_collaborators_def)

lemma example_ctx:
  "NewContext example_collaborators (GetNamespace example_collaborators acc) = ''default''"
  by (simp add: example_collaborators_def)

theorem C2_failure_statuses_witness:
  "fst (Handle example_collaborators (example_request ''SpinnakerAccount'' ''unknown'')) =
     Errored 400 (Error ''no account type'') \<and>
   fst (Handle example_collaborators (example_request ''SpinnakerAccount'' ''broken'')) =
     Errored 400 (Error ''conversion failed'') \<and>
   fst (Handle example_collaborators (example_request ''SpinnakerAccount'' ''invalid'')) =
     Errored 422 (Error ''name must be non-empty'')"
proof -
  have d1: "Decode example_collaborators (example_request ''SpinnakerAccount'' ''unknown'') = Inr ''unknown''"
    by (simp add: example_Decode)
  have g1: "GetType example_collaborators (SpecType example_collaborators ''unknown'') =
      Inl (Error ''no account type'')"
    by (simp add: example_GetType)
  have a: "fst (Handle example_collaborators (example_request ''SpinnakerAccount'' ''unknown'')) =
     Errored 400 (Error ''no account type'')"
    using C2_failure_statuses [OF example_matched d1, of "Error ''no account type''"] g1
    by blast
  have d2: "Decode example_collaborators (example_request ''SpinnakerAccount'' ''broken'') = Inr ''broken''"
    by (simp add: example_Decode)
  have g2: "GetType example_collaborators (SpecType example_collaborators ''broken'') = Inr ''broken''"
    by (simp add: example_GetType)
  have f2: "FromCRD example_collaborators ''broken'' ''broken'' = Inl (Error ''conversion failed'')"
    by (simp add: example_FromCRD)
  have b: "fst (Handle example_collaborators (example_request ''SpinnakerAccount'' ''broken'')) =
     Errored 400 (Error ''conversion failed'')"
    using C2_failure_statuses [OF example_matched d2, of "Error ''conversion failed''" "''broken''"] g2 f2
    by blast
  have d3: "Decode example_collaborators (example_request ''SpinnakerAccount'' ''invalid'') = Inr ''invalid''"
    by (simp add: example_Decode)
  have g3: "GetType example_collaborators (SpecType example_collaborators ''invalid'') = Inr ''invalid''"
    by (simp add: example_GetType)
  have f3: "FromCRD example_collaborators ''invalid'' ''invalid'' = Inr ''invalid''"
    by (simp add: example_FromCRD)
  have v3: "Validate example_collaborators ''invalid''
      (NewContext example_collaborators (GetNamespace example_collaborators ''invalid'')) =
      Some (Error ''name must be non-empty'')"
    by (simp add: example_Validate)
  have c: "fst (Handle example_collaborators (example_request ''SpinnakerAccount'' ''invalid'')) =
     Errored 422 (Error ''name must be non-empty'')"
    using C2_failure_statuses [OF example_matched d3, of "Error ''name must be non-empty''"
        "''invalid''" "''invalid''"] g3 f3 v3
    by blast
  from a b c show ?thesis by blast
qed

text \<open>
  C2 (counterexample). The matched request with the unregistered account type \<open>unknown\<close>
  is denied with status 400, not 422.
\<close>

theorem C2_unresolved_type_counterexample:
  "req_Kind (example_request ''SpinnakerAccount'' ''unknown'') = accountIdentity example_collaborators \<and>
   Decode example_collaborators (example_request ''SpinnakerAccount'' ''unknown'') = Inr ''unknown'' \<and>
   GetType example_collaborators (SpecType example_collaborators ''unknown'') =
     Inl (Error ''no account type'') \<and>
   errored_with (fst (Handle example_collaborators (example_request ''SpinnakerAccount'' ''unknown''))) =
     Some (400, ''no account type'') \<and>
   map_option fst
     (errored_with (fst (Handle example_collaborators (example_request ''SpinnakerAccount'' ''unknown''))))
     \<noteq> Some 422"
proof -
  have d: "Decode example_collaborators (example_request ''SpinnakerAccount'' ''unknown'') = Inr ''unknown''"
    by (simp add: example_Decode)
  have g: "GetType example_collaborators (SpecType example_collaborators ''unknown'') =
     Inl (Error ''no account type'')"
    by (simp add: example_GetType)
  have "fst (Handle example_collaborators (example_request ''SpinnakerAccount'' ''unknown'')) =
     Errored 400 (Error ''no account type'')"
    by (simp add: Handle_decoded [OF example_matched d] g StatusBadRequest_def)
  with d g show ?thesis by (simp add: example_matched)
qed

text \<open>
  C8. A matched request that decodes, resolves its type and converts reaches the
  validation step. There \<open>Handle\<close> acquires the secret context once, validates with it and
  releases that same context once, as its last call, both when validation fails (denied,
  status 422) and when it succeeds (allowed).
\<close>

theorem C8_context_released_once:
  assumes "req_Kind req = accountIdentity v" and "Decode v req = Inr acc"
    and "GetType v (SpecType v acc) = Inr accType"
    and "FromCRD v accType acc = Inr spinAccount"
    and "ctx = NewContext v (GetNamespace v acc)"
  shows "snd (Handle v req) =
           [Log_Info (''Handling admission request for: '' @ Kind (req_Kind req)),
            Decode_call, GetType_call (SpecType v acc), FromCRD_call,
            NewContext_call ctx, Validate_call ctx, Cleanup_call ctx] \<and>
         context_events (snd (Handle v req)) = [NewContext_call ctx, Cleanup_call ctx] \<and>
         count_list (snd (Handle v req)) (NewContext_call ctx) = 1 \<and>
         count_list (snd (Handle v req)) (Cleanup_call ctx) = 1 \<and>
         (case Validate v spinAccount ctx of
            Some err \<Rightarrow> fst (Handle v req) = Errored 422 err \<and> \<not> Allowed (fst (Handle v req))
          | None \<Rightarrow> fst (Handle v req) = ValidationResponse True '''' \<and> Allowed (fst (Handle v req)))"
proof -
  let ?tr = "[Log_Info (''Handling admission request for: '' @ Kind (req_Kind req)),
            Decode_call, GetType_call (SpecType v acc), FromCRD_call,
            NewContext_call ctx, Validate_call ctx, Cleanup_call ctx]"
  have H: "Handle v req =
      (case Validate v spinAccount ctx of
         Some err \<Rightarrow> (Errored StatusUnprocessableEntity err, ?tr)
       | None \<Rightarrow> (ValidationResponse True '''', ?tr))"
    using assms(3,4) unfolding assms(5)
    by (simp add: Handle_decoded [OF assms(1,2)] Let_def split: option.split)
  have tr: "snd (Handle v req) = ?tr"
    by (simp add: H split: option.split)
  have ce: "context_events ?tr = [NewContext_call ctx, Cleanup_call ctx]"
    by (simp add: context_events_def)
  have c1: "count_list ?tr (NewContext_call ctx) = 1" by simp
  have c2: "count_list ?tr (Cleanup_call ctx) = 1" by simp
  have resp: "(case Validate v spinAccount ctx of
            Some err \<Rightarrow> fst (Handle v req) = Errored 422 err \<and> \<not> Allowed (fst (Handle v req))
          | None \<Rightarrow> fst (Handle v req) = ValidationResponse True '''' \<and> Allowed (fst (Handle v req)))"
    by (simp add: H StatusUnprocessableEntity_def split: option.split)
  from tr ce c1 c2 resp show ?thesis by simp
qed

theorem C8_context_released_once_witness:
  "context_events (snd (Handle example_collaborators (example_request ''SpinnakerAccount'' ''invalid''))) =
     [NewContext_call ''default'', Cleanup_call ''default''] \<and>
   fst (Handle example_collaborators (example_request ''SpinnakerAccount'' ''invalid'')) =
     Errored 422 (Error ''name must be non-empty'') \<and>
   context_events (snd (Handle example_collaborators (example_request ''SpinnakerAccount'' ''valid''))) =
     [NewContext_call ''default'', Cleanup_call ''default''] \<and>
   fst (Handle example_collaborators (example_request ''SpinnakerAccount'' ''valid'')) =
     ValidationResponse True ''''"
proof -
  have d1: "Decode example_collaborators (example_request ''SpinnakerAccount'' ''invalid'') = Inr ''invalid''"
    by (simp add: example_Decode)
  have g1: "GetType example_collaborators (SpecType example_collaborators ''invalid'') = Inr ''invalid''"
    by (simp add: example_GetType)
  have f1: "FromCRD example_collaborators ''invalid'' ''invalid'' = Inr ''invalid''"
    by (simp add: example_FromCRD)
  have x1: "''default'' = NewContext example_collaborators (GetNamespace example_collaborators ''invalid'')"
    by (simp add: example_ctx)
  have v1: "Validate example_collaborators ''invalid'' ''default'' = Some (Error ''name must be non-empty'')"
    by (simp add: example_collaborators_def)
  have a: "context_events (snd (Handle example_collaborators (example_request ''SpinnakerAccount'' ''invalid''))) =
     [NewContext_call ''default'', Cleanup_call ''default''] \<and>
   fst (Handle example_collaborators (example_request ''SpinnakerAccount'' ''invalid'')) =
     Errored 422 (Error ''name must be non-empty'')"
    using C8_context_released_once [OF example_matched d1 g1 f1 x1]
    by (simp add: v1 context_events_def)
  have d2: "Decode example_collaborators (example_request ''SpinnakerAccount'' ''valid'') = Inr ''valid''"
    by (simp add: example_Decode)
  have g2: "GetType example_collaborators (SpecType example_collaborators ''valid'') = Inr ''valid''"
    by (simp add: example_GetType)
  have f2: "FromCRD example_collaborators ''valid'' ''valid'' = Inr ''valid''"
    by (simp add: example_FromCRD)
  have x2: "''default'' = NewContext example_collaborators (GetNamespace example_collaborators ''valid'')"
    by (simp add: example_ctx)
  have v2: "Validate example_collaborators ''valid'' ''default'' = None"
    by (simp add: example_collaborators_def)
  have b: "context_events (snd (Handle example_collaborators (example_request ''SpinnakerAccount'' ''valid''))) =
     [NewContext_call ''default'', Cleanup_call ''default''] \<and>
   fst (Handle example_collaborators (example_request ''SpinnakerAccount'' ''valid'')) =
     ValidationResponse True ''''"
    using C8_context_released_once [OF example_matched d2 g2 f2 x2]
    by (simp add: v2 context_events_def)
  from a b show ?thesis by blast
qed

section \<open>Startup\<close>

text \<open>
  C9. With the operator name resolved by the platform, identity resolution returns the
  namespace the platform resolves; when that lookup fails it returns the value of
  \<open>ADMISSION_PROXY_NAMESPACE\<close>; when that variable is unset as well (\<open>os.Getenv\<close> gives
  the empty string) it fails with an error, and \<open>Start\<close> returns that error at once,
  leaving the webhook server as it was.
\<close>

theorem C9_operator_identity_resolution:
  assumes "GetOperatorName pl = Inr name"
  shows "(GetOperatorNamespace pl = Inr ns \<longrightarrow>
            getOperatorNameAndNamespace pl = Inr (ns, name)) \<and>
         (GetOperatorNamespace pl = Inl err \<and> Getenv pl ''ADMISSION_PROXY_NAMESPACE'' \<noteq> '''' \<longrightarrow>
            getOperatorNameAndNamespace pl = Inr (Getenv pl ''ADMISSION_PROXY_NAMESPACE'', name)) \<and>
         (GetOperatorNamespace pl = Inl err \<and> Getenv pl ''ADMISSION_PROXY_NAMESPACE'' = '''' \<longrightarrow>
            getOperatorNameAndNamespace pl =
              Inl (Error (''unable to determine operator namespace. Error: '' @ message err @
                          '' and ADMISSION_PROXY_NAMESPACE env var not set'')) \<and>
            (registrations \<noteq> [] \<longrightarrow>
               Start pl mapLower registrations hookServer =
                 (Returned (Some (Error (''unable to determine operator namespace. Error: '' @
                     message err @ '' and ADMISSION_PROXY_NAMESPACE env var not set''))),
                  hookServer)))"
  using assms by (simp add: getOperatorNameAndNamespace_def Start_def Let_def)

theorem C9_operator_identity_resolution_witness:
  "getOperatorNameAndNamespace (example_platform (Inr ''operator'') (Inr ''spinnaker'') '''') =
     Inr (''spinnaker'', ''operator'') \<and>
   getOperatorNameAndNamespace (example_platform (Inr ''operator'') (Inl (Error ''no file'')) ''proxy-ns'') =
     Inr (''proxy-ns'', ''operator'') \<and>
   getOperatorNameAndNamespace (example_platform (Inr ''operator'') (Inl (Error ''no file'')) '''') =
     Inl (Error ''unable to determine operator namespace. Error: no file and ADMISSION_PROXY_NAMESPACE env var not set'') \<and>
   fst (Start (example_platform (Inr ''operator'') (Inl (Error ''no file'')) '''') id
          (Register id example_kind ''spinnakeraccounts'' (0::nat) registrations_init) example_server) =
     Returned (Some (Error ''unable to determine operator namespace. Error: no file and ADMISSION_PROXY_NAMESPACE env var not set''))"
proof -
  have n: "GetOperatorName (example_platform (Inr ''operator'') nsr env) = Inr ''operator''" for nsr env
    by (simp add: example_platform_def)
  have s: "GetOperatorNamespace (example_platform nr nsr env) = nsr" for nr nsr env
    by (simp add: example_platform_def)
  have e: "Getenv (example_platform nr nsr env) ''ADMISSION_PROXY_NAMESPACE'' = env" for nr nsr env
    by (simp add: example_platform_def)
  have ne: "Register id example_kind ''spinnakeraccounts'' (0::nat) registrations_init \<noteq> []"
    by (simp add: Register_def)
  have a: "getOperatorNameAndNamespace (example_platform (Inr ''operator'') (Inr ''spinnaker'') '''') =
     Inr (''spinnaker'', ''operator'')"
    using C9_operator_identity_resolution [OF n, of "Inr ''spinnaker''" "''''" "''spinnaker''"]
    by (simp add: s)
  have b: "getOperatorNameAndNamespace (example_platform (Inr ''operator'') (Inl (Error ''no file'')) ''proxy-ns'') =
     Inr (''proxy-ns'', ''operator'')"
    using C9_operator_identity_resolution [OF n, of "Inl (Error ''no file'')" "''proxy-ns''" _ "Error ''no file''"]
    by (simp add: s e)
  have c: "getOperatorNameAndNamespace (example_platform (Inr ''operator'') (Inl (Error ''no file'')) '''') =
     Inl (Error ''unable to determine operator namespace. Error: no file and ADMISSION_PROXY_NAMESPACE env var not set'') \<and>
   fst (Start (example_platform (Inr ''operator'') (Inl (Error ''no file'')) '''') id
          (Register id example_kind ''spinnakeraccounts'' (0::nat) registrations_init) example_server) =
     Returned (Some (Error ''unable to determine operator namespace. Error: no file and ADMISSION_PROXY_NAMESPACE env var not set''))"
    using C9_operator_identity_resolution [OF n, of "Inl (Error ''no file'')" "''''" _ "Error ''no file''"
        "Register id example_kind ''spinnakeraccounts'' (0::nat) registrations_init" id example_server] ne
    by (simp add: s e)
  from a b c show ?thesis by blast
qed

lemma webhooksLoop_Webhooks:
  "Webhooks (webhooksLoop ml svcName ns cert regs cfg) =
   Webhooks cfg @ map (\<lambda>reg. last (Webhooks (appendWebhook ml svcName ns cert reg cfg))) regs"
  by (induction regs arbitrary: cfg) (simp_all add: appendWebhook_def)

lemma example_platform_resolved:
  "getOperatorNameAndNamespace (example_platform (Inr ''operator'') (Inr ''spinnaker'') '''') =
     Inr (''spinnaker'', ''operator'')"
  by (simp add: getOperatorNameAndNamespace_def example_platform_def)

lemma example_platform_steps:
  "NewForConfigOrDie (example_platform nr nsr env) = Some () \<and>
   deployWebhookService (example_platform nr nsr env) ns name servicePort () = None \<and>
   getCertContext (example_platform nr nsr env) ns name =
     Inr \<lparr>certDir = ''/tmp/certs'', signingCert = ''CA''\<rparr>"
  by (simp add: example_platform_def deployWebhookService_def)

lemma example_registrations:
  "Register ml example_kind ''spinnakeraccounts'' hdl registrations_init =
     [\<lparr>kind = example_kind, h = hdl, p = ''/validate-spinnaker-io-v1alpha2-spinnakeraccount'',
       r = ''spinnakeraccounts''\<rparr>]"
  by (simp add: Register_def registrations_init_def example_kind_path)

text \<open>
  The registration loop runs to its end exactly when the paths are pairwise distinct and
  none is registered on the server already; otherwise \<open>hookServer.Register\<close> panics.
\<close>

lemma registerLoop_completes:
  "distinct (map p regs) \<Longrightarrow> set (map p regs) \<inter> set (map fst (webhooks srv)) = {} \<Longrightarrow>
   registerLoop regs srv =
     (True, srv\<lparr>webhooks := webhooks srv @ map (\<lambda>reg. (p reg, h reg)) regs\<rparr>)"
proof (induction regs arbitrary: srv)
  case Nil
  then show ?case by simp
next
  case (Cons reg regs)
  let ?srv = "srv\<lparr>webhooks := webhooks srv @ [(p reg, h reg)]\<rparr>"
  from Cons.prems have fresh: "p reg \<notin> set (map fst (webhooks srv))"
    by auto
  from Cons.prems have "distinct (map p regs)"
    and "set (map p regs) \<inter> set (map fst (webhooks ?srv)) = {}"
    by auto
  then have "registerLoop regs ?srv =
      (True, ?srv\<lparr>webhooks := webhooks ?srv @ map (\<lambda>reg. (p reg, h reg)) regs\<rparr>)"
    by (rule Cons.IH)
  with fresh show ?case
    by (simp add: Server_Register_def)
qed

lemma registerLoop_panics:
  "\<not> (distinct (map p regs) \<and> set (map p regs) \<inter> set (map fst (webhooks srv)) = {}) \<Longrightarrow>
   fst (registerLoop regs srv) = False"
proof (induction regs arbitrary: srv)
  case Nil
  then show ?case by simp
next
  case (Cons reg regs)
  show ?case
  proof (cases "p reg \<in> set (map fst (webhooks srv))")
    case True
    then show ?thesis by (simp add: Server_Register_def)
  next
    case False
    let ?srv = "srv\<lparr>webhooks := webhooks srv @ [(p reg, h reg)]\<rparr>"
    from Cons.prems False
    have "\<not> (distinct (map p regs) \<and> set (map p regs) \<inter> set (map fst (webhooks ?srv)) = {})"
      by auto
    then have "fst (registerLoop regs ?srv) = False"
      by (rule Cons.IH)
    with False show ?thesis
      by (simp add: Server_Register_def)
  qed
qed

lemma Start_repeated_path_panics:
  assumes "registrations \<noteq> []"
    and "getOperatorNameAndNamespace pl = Inr (ns, name)"
    and "NewForConfigOrDie pl = Some rawClient"
    and "deployWebhookService pl ns name servicePort rawClient = None"
    and "getCertContext pl ns name = Inr c"
    and "\<not> (distinct (map p registrations) \<and>
            set (map p registrations) \<inter> set (map fst (webhooks hookServer)) = {})"
  shows "fst (Start pl mapLower registrations hookServer) = Panicked"
proof -
  let ?srv1 = "hookServer\<lparr>CertDir := certDir c, Port := servicePort\<rparr>"
  from assms(6) have "fst (registerLoop registrations ?srv1) = False"
    by (intro registerLoop_panics) simp
  then obtain srv2 where "registerLoop registrations ?srv1 = (False, srv2)"
    by (cases "registerLoop registrations ?srv1") simp
  with assms(1-5) show ?thesis
    by (simp add: Start_def)
qed

lemma example_kind2_path:
  "generateValidatePath ml example_kind2 = ''/validate-spinnaker-io-v1alpha2-spinnakerservice''"
  by (simp add: generateValidatePath_def example_kind2_def ToLower_lowercased lowercased_def
      ascii_only_def ascii_lower_def)

lemma example_registrations2:
  "Register ml example_kind2 ''spinnakerservices'' hdl2
     (Register ml example_kind ''spinnakeraccounts'' hdl registrations_init) =
     [\<lparr>kind = example_kind, h = hdl, p = ''/validate-spinnaker-io-v1alpha2-spinnakeraccount'',
       r = ''spinnakeraccounts''\<rparr>,
      \<lparr>kind = example_kind2, h = hdl2, p = ''/validate-spinnaker-io-v1alpha2-spinnakerservice'',
       r = ''spinnakerservices''\<rparr>]"
  by (simp add: example_registrations) (simp add: Register_def example_kind2_path)

lemma example_registrations_repeated:
  "Register ml example_kind ''spinnakeraccounts'' hdl2
     (Register ml example_kind ''spinnakeraccounts'' hdl registrations_init) =
     [\<lparr>kind = example_kind, h = hdl, p = ''/validate-spinnaker-io-v1alpha2-spinnakeraccount'',
       r = ''spinnakeraccounts''\<rparr>,
      \<lparr>kind = example_kind, h = hdl2, p = ''/validate-spinnaker-io-v1alpha2-spinnakeraccount'',
       r = ''spinnakeraccounts''\<rparr>]"
  by (simp add: example_registrations) (simp add: Register_def example_kind_path)

text \<open>
  C5 (counterexample). \<open>Register\<close> called twice with the same identity gives a registry
  of two registrations with one path. On a platform where every step of \<open>Start\<close>
  succeeds, \<open>Start\<close> registers the path once and panics in \<open>hookServer.Register\<close> at the
  second registration: it does not return, and the registered paths are not those of the
  two registrations.
\<close>

theorem C5_Start_repeated_path_counterexample:
  "registry id (Register id example_kind ''spinnakeraccounts'' (8::nat)
     (Register id example_kind ''spinnakeraccounts'' (7::nat) registrations_init)) \<and>
   map p (Register id example_kind ''spinnakeraccounts'' (8::nat)
     (Register id example_kind ''spinnakeraccounts'' (7::nat) registrations_init)) =
     [''/validate-spinnaker-io-v1alpha2-spinnakeraccount'',
      ''/validate-spinnaker-io-v1alpha2-spinnakeraccount''] \<and>
   getOperatorNameAndNamespace (example_platform (Inr ''operator'') (Inr ''spinnaker'') '''') =
     Inr (''spinnaker'', ''operator'') \<and>
   fst (Start (example_platform (Inr ''operator'') (Inr ''spinnaker'') '''') id
     (Register id example_kind ''spinnakeraccounts'' (8::nat)
       (Register id example_kind ''spinnakeraccounts'' (7::nat) registrations_init))
     example_server) = Panicked \<and>
   webhooks (snd (Start (example_platform (Inr ''operator'') (Inr ''spinnaker'') '''') id
     (Register id example_kind ''spinnakeraccounts'' (8::nat)
       (Register id example_kind ''spinnakeraccounts'' (7::nat) registrations_init))
     example_server)) = [(''/validate-spinnaker-io-v1alpha2-spinnakeraccount'', 7)] \<and>
   map fst (webhooks (snd (Start (example_platform (Inr ''operator'') (Inr ''spinnaker'') '''') id
     (Register id example_kind ''spinnakeraccounts'' (8::nat)
       (Register id example_kind ''spinnakeraccounts'' (7::nat) registrations_init))
     example_server))) \<noteq>
     map p (Register id example_kind ''spinnakeraccounts'' (8::nat)
       (Register id example_kind ''spinnakeraccounts'' (7::nat) registrations_init))"
proof -
  have reg: "registry id (Register id example_kind ''spinnakeraccounts'' (8::nat)
     (Register id example_kind ''spinnakeraccounts'' (7::nat) registrations_init))"
    by (intro registry_Register registry_init)
  have start: "Start (example_platform (Inr ''operator'') (Inr ''spinnaker'') '''') id
     (Register id example_kind ''spinnakeraccounts'' (8::nat)
       (Register id example_kind ''spinnakeraccounts'' (7::nat) registrations_init))
     example_server =
     (Panicked, \<lparr>CertDir = ''/tmp/certs'', Port = servicePort,
                 webhooks = [(''/validate-spinnaker-io-v1alpha2-spinnakeraccount'', 7)]\<rparr>)"
    by (simp add: example_registrations_repeated Start_def example_platform_resolved
        example_platform_steps example_server_def Server_Register_def)
  show ?thesis
    by (simp add: reg start example_platform_resolved) (simp add: example_registrations_repeated)
qed

text \<open>
  C5 (amended). \<open>Start\<close> with zero registrations returns the error
  \<open>no kind registered for validation\<close> and leaves the webhook server as it was. \<open>Start\<close>
  with one or more registrations whose paths are pairwise distinct and not yet registered
  on the server registers, once identity resolution, the construction of the client, the
  deployment of the webhook service and the certificate context have succeeded, exactly
  those registrations' paths: one handler per registration, in order, and nothing else;
  it then returns the result of deploying the webhook configuration.
\<close>

theorem C5_Start_registers_paths:
  "(registrations = [] \<longrightarrow>
      Start pl mapLower registrations hookServer =
        (Returned (Some (Error ''no kind registered for validation'')), hookServer)) \<and>
   (registrations \<noteq> [] \<and> getOperatorNameAndNamespace pl = Inr (ns, name) \<and>
    NewForConfigOrDie pl = Some rawClient \<and>
    deployWebhookService pl ns name servicePort rawClient = None \<and>
    getCertContext pl ns name = Inr c \<and>
    distinct (map p registrations) \<and>
    set (map p registrations) \<inter> set (map fst (webhooks hookServer)) = {} \<longrightarrow>
      webhooks (snd (Start pl mapLower registrations hookServer)) =
        webhooks hookServer @ map (\<lambda>reg. (p reg, h reg)) registrations \<and>
      map fst (webhooks (snd (Start pl mapLower registrations hookServer))) =
        map fst (webhooks hookServer) @ map p registrations \<and>
      fst (Start pl mapLower registrations hookServer) =
        Returned (deployValidatingWebhookConfiguration pl mapLower name ns rawClient
                    (signingCert c) registrations))"
proof -
  have zero: "registrations = [] \<longrightarrow>
      Start pl mapLower registrations hookServer =
        (Returned (Some (Error ''no kind registered for validation'')), hookServer)"
    by (simp add: Start_def)
  have some: "webhooks (snd (Start pl mapLower registrations hookServer)) =
        webhooks hookServer @ map (\<lambda>reg. (p reg, h reg)) registrations \<and>
      map fst (webhooks (snd (Start pl mapLower registrations hookServer))) =
        map fst (webhooks hookServer) @ map p registrations \<and>
      fst (Start pl mapLower registrations hookServer) =
        Returned (deployValidatingWebhookConfiguration pl mapLower name ns rawClient
                    (signingCert c) registrations)"
    if ne: "registrations \<noteq> []"
      and steps: "getOperatorNameAndNamespace pl = Inr (ns, name)"
        "NewForConfigOrDie pl = Some rawClient"
        "deployWebhookService pl ns name servicePort rawClient = None"
        "getCertContext pl ns name = Inr c"
      and paths: "distinct (map p registrations)"
        "set (map p registrations) \<inter> set (map fst (webhooks hookServer)) = {}"
  proof -
    let ?srv1 = "hookServer\<lparr>CertDir := certDir c, Port := servicePort\<rparr>"
    from paths have "registerLoop registrations ?srv1 =
        (True, ?srv1\<lparr>webhooks := webhooks ?srv1 @ map (\<lambda>reg. (p reg, h reg)) registrations\<rparr>)"
      by (intro registerLoop_completes) simp_all
    with ne steps show ?thesis
      by (simp add: Start_def comp_def)
  qed
  from zero some show ?thesis by blast
qed

theorem C5_Start_registers_paths_witness:
  "Start (example_platform (Inr ''operator'') (Inr ''spinnaker'') '''') id registrations_init example_server =
     (Returned (Some (Error ''no kind registered for validation'')), example_server) \<and>
   distinct (map p (Register id example_kind2 ''spinnakerservices'' (8::nat)
     (Register id example_kind ''spinnakeraccounts'' (7::nat) registrations_init))) \<and>
   webhooks (snd (Start (example_platform (Inr ''operator'') (Inr ''spinnaker'') '''') id
      (Register id example_kind2 ''spinnakerservices'' (8::nat)
        (Register id example_kind ''spinnakeraccounts'' (7::nat) registrations_init))
      example_server)) =
     [(''/validate-spinnaker-io-v1alpha2-spinnakeraccount'', 7),
      (''/validate-spinnaker-io-v1alpha2-spinnakerservice'', 8)] \<and>
   fst (Start (example_platform (Inr ''operator'') (Inr ''spinnaker'') '''') id
      (Register id example_kind2 ''spinnakerservices'' (8::nat)
        (Register id example_kind ''spinnakeraccounts'' (7::nat) registrations_init))
      example_server) = Returned None"
proof -
  let ?pl = "example_platform (Inr ''operator'') (Inr ''spinnaker'') '''' :: unit platform"
  let ?regs = "Register id example_kind2 ''spinnakerservices'' (8::nat)
     (Register id example_kind ''spinnakeraccounts'' (7::nat) registrations_init)"
  have a: "Start ?pl id registrations_init example_server =
     (Returned (Some (Error ''no kind registered for validation'')), example_server)"
    using C5_Start_registers_paths [where registrations = registrations_init and pl = ?pl
        and mapLower = id and hookServer = example_server]
    by (simp add: registrations_init_def)
  have ne: "?regs \<noteq> []"
    by (simp add: example_registrations2)
  have d: "distinct (map p ?regs)"
    by (simp add: example_registrations2)
  have f: "set (map p ?regs) \<inter> set (map fst (webhooks example_server)) = {}"
    by (simp add: example_server_def)
  have s: "NewForConfigOrDie ?pl = Some ()"
    "deployWebhookService ?pl ''spinnaker'' ''operator'' servicePort () = None"
    "getCertContext ?pl ''spinnaker'' ''operator'' = Inr \<lparr>certDir = ''/tmp/certs'', signingCert = ''CA''\<rparr>"
    by (simp_all add: example_platform_steps)
  have dep: "deployValidatingWebhookConfiguration ?pl id ''operator'' ''spinnaker'' () cert regs = None"
    for cert and regs :: "nat registration list"
    by (simp add: deployValidatingWebhookConfiguration_def example_platform_def)
  from C5_Start_registers_paths [where registrations = ?regs and pl = ?pl and mapLower = id
      and hookServer = example_server and ns = "''spinnaker''" and name = "''operator''"
      and rawClient = "()" and c = "\<lparr>certDir = ''/tmp/certs'', signingCert = ''CA''\<rparr>"]
    ne example_platform_resolved s d f
  have "webhooks (snd (Start ?pl id ?regs example_server)) =
      webhooks example_server @ map (\<lambda>reg. (p reg, h reg)) ?regs"
    and "fst (Start ?pl id ?regs example_server) =
      Returned (deployValidatingWebhookConfiguration ?pl id ''operator'' ''spinnaker'' ()
        (signingCert \<lparr>certDir = ''/tmp/certs'', signingCert = ''CA''\<rparr>) ?regs)"
    by blast+
  then have b: "webhooks (snd (Start ?pl id ?regs example_server)) =
     [(''/validate-spinnaker-io-v1alpha2-spinnakeraccount'', 7),
      (''/validate-spinnaker-io-v1alpha2-spinnakerservice'', 8)]"
    and c: "fst (Start ?pl id ?regs example_server) = Returned None"
    by (simp_all add: dep example_server_def example_registrations2)
  from a d b c show ?thesis by blast
qed

lemma buildValidatingWebhookConfiguration_Webhooks:
  "Webhooks (buildValidatingWebhookConfiguration ml svcName ns cert regs) =
     map (\<lambda>reg.
       \<lparr>wh_Name = ''webhook-'' @ r reg @ ''-'' @ Version (kind reg) @ ''.'' @
                     ToLower ml (Group (kind reg)),
         ClientConfig =
           \<lparr>cc_Service = Some \<lparr>sr_Namespace = ns, sr_Name = svcName, sr_Path = Some (p reg)\<rparr>,
            CABundle = cert\<rparr>,
         Rules =
           [\<lparr>Operations = [Create, Update],
             APIGroups = [Group (kind reg)],
             APIVersions = [Version (kind reg)],
             Resources = [r reg]\<rparr>],
         SideEffects = Some SideEffectClassNone,
         AdmissionReviewVersions = [''v1beta1'', ''v1'']\<rparr>) regs"
  by (simp add: buildValidatingWebhookConfiguration_def webhooksLoop_Webhooks appendWebhook_def
      sideEffect_def)

lemma spinnaker_io_lower: "ToLower ml ''spinnaker.io'' = ''spinnaker.io''"
  by (simp add: ToLower_def isASCII_def RuneSelf_def hasUpper_def isUpperByte_def less_eq_char_def)

text \<open>
  C7. The configuration built from the registry has one webhook entry per registration,
  the \<open>i\<close>-th entry for the \<open>i\<close>-th registration: its name is \<open>webhook-\<close>, the resource
  name, a dash, the version, a dot and the lower-cased group; its client configuration
  references the service \<open>svcName\<close> in the namespace \<open>ns\<close> at the registration's path,
  with the certificate as CA bundle; its one rule has the operations create and update
  and no other; its side-effect class is none. This configuration is what
  \<open>deployValidatingWebhookConfiguration\<close> hands to the create-or-update helper.
\<close>

theorem C7_one_webhook_per_registration:
  assumes "i < length registrations"
    and "webhookConfig = buildValidatingWebhookConfiguration mapLower svcName ns cert registrations"
    and "reg = registrations ! i"
    and "w = Webhooks webhookConfig ! i"
  shows "length (Webhooks webhookConfig) = length registrations \<and>
         wh_Name w = ''webhook-'' @ r reg @ ''-'' @ Version (kind reg) @ ''.'' @
                       ToLower mapLower (Group (kind reg)) \<and>
         cc_Service (ClientConfig w) =
           Some \<lparr>sr_Namespace = ns, sr_Name = svcName, sr_Path = Some (p reg)\<rparr> \<and>
         CABundle (ClientConfig w) = cert \<and>
         map Operations (Rules w) = [[Create, Update]] \<and>
         set (concat (map Operations (Rules w))) = {Create, Update} \<and>
         SideEffects w = Some SideEffectClassNone \<and>
         deployValidatingWebhookConfiguration pl mapLower svcName ns rawClient cert registrations =
           CreateOrUpdateValidatingWebhookConfiguration pl webhookConfig rawClient"
  using assms(1) unfolding assms(2-4)
  by (simp add: buildValidatingWebhookConfiguration_Webhooks deployValidatingWebhookConfiguration_def)

theorem C7_one_webhook_per_registration_witness:
  "0 < length (Register id example_kind ''spinnakeraccounts'' (7::nat) registrations_init) \<and>
   length (Webhooks (buildValidatingWebhookConfiguration id ''operator'' ''spinnaker'' ''CA''
     (Register id example_kind ''spinnakeraccounts'' (7::nat) registrations_init))) = 1 \<and>
   wh_Name (Webhooks (buildValidatingWebhookConfiguration id ''operator'' ''spinnaker'' ''CA''
     (Register id example_kind ''spinnakeraccounts'' (7::nat) registrations_init)) ! 0) =
     ''webhook-spinnakeraccounts-v1alpha2.spinnaker.io'' \<and>
   cc_Service (ClientConfig (Webhooks (buildValidatingWebhookConfiguration id ''operator'' ''spinnaker'' ''CA''
     (Register id example_kind ''spinnakeraccounts'' (7::nat) registrations_init)) ! 0)) =
     Some \<lparr>sr_Namespace = ''spinnaker'', sr_Name = ''operator'',
           sr_Path = Some ''/validate-spinnaker-io-v1alpha2-spinnakeraccount''\<rparr> \<and>
   map Operations (Rules (Webhooks (buildValidatingWebhookConfiguration id ''operator'' ''spinnaker'' ''CA''
     (Register id example_kind ''spinnakeraccounts'' (7::nat) registrations_init)) ! 0)) =
     [[Create, Update]] \<and>
   SideEffects (Webhooks (buildValidatingWebhookConfiguration id ''operator'' ''spinnaker'' ''CA''
     (Register id example_kind ''spinnakeraccounts'' (7::nat) registrations_init)) ! 0) =
     Some SideEffectClassNone"
proof -
  let ?regs = "Register id example_kind ''spinnakeraccounts'' (7::nat) registrations_init"
  have l: "0 < length ?regs"
    by (simp add: example_registrations)
  have e: "?regs ! 0 = \<lparr>kind = example_kind, h = 7,
      p = ''/validate-spinnaker-io-v1alpha2-spinnakeraccount'', r = ''spinnakeraccounts''\<rparr>"
    by (simp add: example_registrations)
  have g: "ToLower id (Group example_kind) = ''spinnaker.io''" "Version example_kind = ''v1alpha2''"
    by (simp_all add: example_kind_def spinnaker_io_lower)
  have n: "length ?regs = 1"
    by (simp add: example_registrations)
  from C7_one_webhook_per_registration [OF l refl refl refl, where mapLower = id
      and svcName = "''operator''" and ns = "''spinnaker''" and cert = "''CA''"
      and pl = "example_platform (Inr ''operator'') (Inr ''spinnaker'') ''''" and rawClient = "()"]
  show ?thesis
    by (simp add: e g n)
qed

end
